theory Spec2Isabelle
  imports Main "HOL-Library.Char_ord" "HOL-Library.List_Lexorder"
begin

section \<open>The OCR model converter: convert\_paddle\_to\_mnn.py\<close>

text \<open>
  The script drives two external converters (paddle2onnx, mnnconvert) over model
  directories and extracts a character dictionary from a YAML side file. The embedding
  below follows the script function by function. What lies outside the script is made
  explicit:
  \<^item> a model directory is a value: its name, its entries in the order the operating
    system lists them, whether \<open>stat\<close> on its entries is permitted, and a trace
    of what the script has done in it so far;
  \<^item> the external tools and Python's built-in \<open>str\<close> are parameters (\<open>env\<close>);
  \<^item> an exception is a value of the sum type \<open>exn + 'a\<close>.
  The messages the script prints are not modelled, a call of \<open>subprocess.run\<close> is
  taken to return or to raise, creating \<open>ppocr_keys.txt\<close> is taken to be permitted,
  and a tool run changes only the directory it runs in.
\<close>

subsection \<open>Data\<close>

datatype input_format = PADDLE | ONNX | AUTO

text \<open>
  What \<open>yaml.safe_load\<close> returns: None, a bool, an int, a str, a list or a dict
  (the entries of a dict in insertion order, with distinct keys). A \<open>char\<close> stands for
  one character of a Python \<open>str\<close>.
\<close>

datatype yaml =
    YNull
  | YBool bool
  | YInt int
  | YStr string
  | YList "yaml list"
  | YDict "(yaml \<times> yaml) list"

text \<open>
  The content of a file, as far as the script can see it: \<open>Yaml y\<close> is a file that
  \<open>open\<close> reads and \<open>yaml.safe_load\<close> parses to \<open>y\<close>; \<open>Text s\<close> is a text
  file with the characters \<open>s\<close>, as the script writes it; \<open>Blob\<close> is any other
  file (a model binary, a file that cannot be read or is not YAML); \<open>Dangling\<close> is an
  entry that \<open>stat\<close> cannot follow (a symbolic link whose target is missing): listing
  the directory shows it, and \<open>exists()\<close> is False for it.
\<close>

datatype content = Yaml yaml | Text string | Blob | Dangling

type_synonym listing = "(string \<times> content) list"

text \<open>The effects of the script in a directory, in the order they happen.\<close>

datatype effect =
    Run "string list" \<comment> \<open>a call \<open>subprocess.run(cmd, cwd=model_path)\<close>\<close>
  | OpenRead string
  | OpenWrite string

datatype exn = PermissionError | TypeError | KeyError | LoadError

text \<open>
  The outcome of \<open>subprocess.run(cmd, cwd=model_path)\<close>: the call raises (the tool is
  not installed, its output cannot be decoded, ...) or completes with a return code.
  Either way the directory may have changed.
\<close>

datatype proc = Raised listing | Completed int listing

record model_dir =
  name :: string
  files :: listing
  searchable :: bool
  trace :: "effect list"

record env =
  subprocess_run :: "string list \<Rightarrow> listing \<Rightarrow> proc"
  builtin_str :: "yaml \<Rightarrow> string"

type_synonym results = "string \<rightharpoonup> bool"

subsection \<open>Exceptions, paths and strings\<close>

definition bind_exn :: "exn + 'a \<Rightarrow> ('a \<Rightarrow> exn + 'b) \<Rightarrow> exn + 'b" where
  "bind_exn m f = (case m of Inl e \<Rightarrow> Inl e | Inr x \<Rightarrow> f x)"

text \<open>Whether \<open>stat\<close> finds a file under the name: it is listed and not dangling.\<close>

definition is_present :: "listing \<Rightarrow> string \<Rightarrow> bool" where
  "is_present fs f = (case map_of fs f of None \<Rightarrow> False | Some c \<Rightarrow> c \<noteq> Dangling)"

text \<open>
  \<open>(model_path / f).exists()\<close>: pathlib returns False for a missing file or a dangling
  link and lets every other \<open>OSError\<close> of \<open>stat\<close> through, so the call raises
  PermissionError in a directory without search permission.
\<close>

definition path_exists :: "model_dir \<Rightarrow> string \<Rightarrow> exn + bool" where
  "path_exists d f =
     (if searchable d then Inr (is_present (files d) f) else Inl PermissionError)"

definition ends_with :: "string \<Rightarrow> string \<Rightarrow> bool" where
  "ends_with s suffix = (length suffix \<le> length s \<and> drop (length s - length suffix) s = suffix)"

text \<open>
  \<open>model_path.glob("*.onnx")\<close>: the entries whose name ends in \<open>.onnx\<close> (compared
  case-sensitively, as on POSIX), in listing order, dangling links included. Listing a
  directory needs read permission only, which the model takes as given.
\<close>

definition glob_onnx :: "model_dir \<Rightarrow> string list" where
  "glob_onnx d = filter (\<lambda>f. ends_with f ''.onnx'') (map fst (files d))"

text \<open>\<open>str.rfind\<close>: the highest index of the character, or -1.\<close>

definition rfind :: "string \<Rightarrow> char \<Rightarrow> int" where
  "rfind s c =
     (if c \<in> set s then int (length s) - 1 - int (length (takeWhile (\<lambda>x. x \<noteq> c) (rev s)))
      else - 1)"

text \<open>\<open>PurePath.stem\<close>: the name up to its last dot, unless that dot is the first or the last character.\<close>

definition stem :: "string \<Rightarrow> string" where
  "stem f =
     (let i = rfind f (CHR ''.'')
      in if 0 < i \<and> i < int (length f) - 1 then take (nat i) f else f)"

text \<open>\<open>p in s\<close> for two strings.\<close>

fun contains :: "string \<Rightarrow> string \<Rightarrow> bool" where
  "contains [] p = (p = [])"
| "contains (c # s) p = (take (length p) (c # s) = p \<or> contains s p)"

definition newline :: string where
  "newline = [CHR 0x0A]"

text \<open>Writing a file replaces the content under its name, or adds the name at the end.\<close>

fun write_file :: "string \<Rightarrow> content \<Rightarrow> listing \<Rightarrow> listing" where
  "write_file f c [] = [(f, c)]"
| "write_file f c (p # ps) = (if fst p = f then (f, c) # ps else p # write_file f c ps)"

subsection \<open>The two converter stages\<close>

text \<open>
  The \<open>try\<close> block both converter stages end with: run the command in the model
  directory; a zero return code is success, a non-zero one and any exception are failure.
\<close>

definition try_run :: "env \<Rightarrow> string list \<Rightarrow> model_dir \<Rightarrow> bool \<times> model_dir" where
  "try_run env cmd d =
     (case subprocess_run env cmd (files d) of
        Raised fs \<Rightarrow> (False, d\<lparr>files := fs, trace := trace d @ [Run cmd]\<rparr>)
      | Completed returncode fs \<Rightarrow>
          (returncode = 0, d\<lparr>files := fs, trace := trace d @ [Run cmd]\<rparr>))"

definition paddle2onnx_cmd :: "string list" where
  "paddle2onnx_cmd =
     [''paddle2onnx'', ''--model_dir'', ''.'', ''--model_filename'', ''inference.json'',
      ''--params_filename'', ''inference.pdiparams'', ''--save_file'', ''model.onnx'']"

definition convert_paddle_to_onnx :: "env \<Rightarrow> model_dir \<Rightarrow> exn + (bool \<times> model_dir)" where
  "convert_paddle_to_onnx env d =
     bind_exn (path_exists d ''inference.json'') (\<lambda>has_json.
     bind_exn (if \<not> has_json then Inr True
               else bind_exn (path_exists d ''inference.pdiparams'') (\<lambda>p. Inr (\<not> p))) (\<lambda>missing.
     if missing then Inr (False, d)
     else bind_exn (path_exists d ''model.onnx'') (\<lambda>done.
       if done then Inr (True, d)
       else Inr (try_run env paddle2onnx_cmd d))))"

definition mnnconvert_cmd :: "bool \<Rightarrow> string \<Rightarrow> string \<Rightarrow> string list" where
  "mnnconvert_cmd use_fp16 onnx_filename mnn_filename =
     [''mnnconvert'', ''-f'', ''ONNX'', ''--modelFile'', onnx_filename,
      ''--MNNModel'', mnn_filename, ''--bizCode'', ''mnn'']
     @ (if use_fp16 then [''--fp16''] else [])"

text \<open>The file names passed to this stage are plain names, so \<open>Path.name\<close> of them is the name itself.\<close>

definition convert_onnx_to_mnn ::
  "env \<Rightarrow> model_dir \<Rightarrow> bool \<Rightarrow> string \<Rightarrow> string \<Rightarrow> exn + (bool \<times> model_dir)" where
  "convert_onnx_to_mnn env d use_fp16 onnx_filename mnn_filename =
     bind_exn (path_exists d onnx_filename) (\<lambda>has_input.
     if \<not> has_input then Inr (False, d)
     else bind_exn (path_exists d mnn_filename) (\<lambda>done.
       if done then Inr (True, d)
       else Inr (try_run env (mnnconvert_cmd use_fp16 onnx_filename mnn_filename) d)))"

subsection \<open>Dictionary extraction\<close>

text \<open>\<open>open(inference_yml)\<close> followed by \<open>yaml.safe_load\<close>.\<close>

definition safe_load :: "listing \<Rightarrow> string \<Rightarrow> exn + yaml" where
  "safe_load fs f = (case map_of fs f of Some (Yaml y) \<Rightarrow> Inr y | _ \<Rightarrow> Inl LoadError)"

text \<open>The test of line 136: \<open>isinstance(item, dict) and 'character_dict' in item\<close>.\<close>

definition has_character_dict :: "yaml \<Rightarrow> bool" where
  "has_character_dict item =
     (case item of YDict kvs \<Rightarrow> map_of kvs (YStr ''character_dict'') \<noteq> None | _ \<Rightarrow> False)"

text \<open>The loop over a list-shaped PostProcess: the first item that passes the test wins.\<close>

fun first_character_dict :: "yaml list \<Rightarrow> yaml" where
  "first_character_dict [] = YNull"
| "first_character_dict (item # items) =
     (case item of
        YDict kvs \<Rightarrow>
          (case map_of kvs (YStr ''character_dict'') of
             Some v \<Rightarrow> v
           | None \<Rightarrow> first_character_dict items)
      | _ \<Rightarrow> first_character_dict items)"

text \<open>
  Lines 130 to 138. On data that is not a dict, \<open>'PostProcess' in data\<close> raises
  TypeError (None, bool, int), or is a substring or membership test whose success makes
  \<open>data['PostProcess']\<close> raise TypeError.
\<close>

definition find_character_dict :: "yaml \<Rightarrow> exn + yaml" where
  "find_character_dict data =
     (case data of
        YDict kvs \<Rightarrow>
          (case map_of kvs (YStr ''PostProcess'') of
             None \<Rightarrow> Inr YNull
           | Some (YDict pp) \<Rightarrow>
               Inr (case map_of pp (YStr ''character_dict'') of None \<Rightarrow> YNull | Some v \<Rightarrow> v)
           | Some (YList items) \<Rightarrow> Inr (first_character_dict items)
           | Some _ \<Rightarrow> Inr YNull)
      | YStr s \<Rightarrow> if contains s ''PostProcess'' then Inl TypeError else Inr YNull
      | YList xs \<Rightarrow> if YStr ''PostProcess'' \<in> set xs then Inl TypeError else Inr YNull
      | _ \<Rightarrow> Inl TypeError)"

text \<open>Python's truth value of a parsed value.\<close>

fun truthy :: "yaml \<Rightarrow> bool" where
  "truthy YNull = False"
| "truthy (YBool b) = b"
| "truthy (YInt i) = (i \<noteq> 0)"
| "truthy (YStr s) = (s \<noteq> [])"
| "truthy (YList xs) = (xs \<noteq> [])"
| "truthy (YDict kvs) = (kvs \<noteq> [])"

text \<open>\<open>for char in character_dict\<close>: a str yields its characters, a dict its keys; a bool or an int is not iterable.\<close>

fun iterate :: "yaml \<Rightarrow> exn + yaml list" where
  "iterate (YList xs) = Inr xs"
| "iterate (YStr s) = Inr (map (\<lambda>c. YStr [c]) s)"
| "iterate (YDict kvs) = Inr (map fst kvs)"
| "iterate v = Inl TypeError"

text \<open>\<open>str(char) if char is not None else ''\<close>; \<open>str\<close> of a str is the str itself.\<close>

definition char_str :: "env \<Rightarrow> yaml \<Rightarrow> string" where
  "char_str env char =
     (if char \<noteq> YNull then (case char of YStr s \<Rightarrow> s | v \<Rightarrow> builtin_str env v) else [])"

text \<open>
  The \<open>try\<close> block of \<open>extract_character_dict\<close>. Every exception inside it gives
  False. Opening the output for writing creates (or empties) it before the loop starts,
  so a value that is not iterable leaves an empty file behind.
\<close>

definition extract_try :: "env \<Rightarrow> model_dir \<Rightarrow> bool \<times> model_dir" where
  "extract_try env d =
     (let d1 = d\<lparr>trace := trace d @ [OpenRead ''inference.yml'']\<rparr>
      in case bind_exn (safe_load (files d) ''inference.yml'') find_character_dict of
           Inl e \<Rightarrow> (False, d1)
         | Inr character_dict \<Rightarrow>
             (if \<not> truthy character_dict then (False, d1)
              else
                (let d2 = d1\<lparr>trace := trace d1 @ [OpenWrite ''ppocr_keys.txt'']\<rparr>
                 in (case iterate character_dict of
                       Inl e \<Rightarrow>
                         (False, d2\<lparr>files := write_file ''ppocr_keys.txt'' (Text []) (files d2)\<rparr>)
                     | Inr chars \<Rightarrow>
                         (True,
                          d2\<lparr>files :=
                               write_file ''ppocr_keys.txt''
                                 (Text (concat (map (\<lambda>char. char_str env char @ newline) chars)))
                                 (files d2)\<rparr>)))))"

definition extract_character_dict :: "env \<Rightarrow> model_dir \<Rightarrow> exn + (bool \<times> model_dir)" where
  "extract_character_dict env d =
     bind_exn (path_exists d ''inference.yml'') (\<lambda>has_yml.
     if \<not> has_yml then Inr (False, d)
     else bind_exn (path_exists d ''ppocr_keys.txt'') (\<lambda>done.
       if done then Inr (True, d)
       else Inr (extract_try env d)))"

subsection \<open>Format detection and the pipeline of one model\<close>

definition detect_input_format :: "model_dir \<Rightarrow> exn + input_format option" where
  "detect_input_format d =
     bind_exn (path_exists d ''inference.json'') (\<lambda>has_json.
     bind_exn (if has_json then path_exists d ''inference.pdiparams'' else Inr False) (\<lambda>has_paddle.
     let has_onnx = (glob_onnx d \<noteq> [])
     in Inr (if has_paddle then Some PADDLE else if has_onnx then Some ONNX else None)))"

definition initial_results :: results where
  "initial_results =
     [''paddle_to_onnx'' \<mapsto> False, ''onnx_to_mnn'' \<mapsto> False,
      ''extract_dict'' \<mapsto> False, ''success'' \<mapsto> False]"

text \<open>\<open>results[k]\<close> raises KeyError on a missing key; \<open>results.get(k, fallback)\<close> does not.\<close>

definition item :: "results \<Rightarrow> string \<Rightarrow> exn + bool" where
  "item r k = (case r k of None \<Rightarrow> Inl KeyError | Some b \<Rightarrow> Inr b)"

definition dict_get :: "results \<Rightarrow> string \<Rightarrow> bool \<Rightarrow> bool" where
  "dict_get r k fallback = (case r k of None \<Rightarrow> fallback | Some b \<Rightarrow> b)"

text \<open>Line 223: \<open>results['success'] = any([...])\<close>.\<close>

definition set_success :: "results \<Rightarrow> exn + results" where
  "set_success r =
     bind_exn (item r ''paddle_to_onnx'') (\<lambda>a.
     bind_exn (item r ''onnx_to_mnn'') (\<lambda>b.
     bind_exn (item r ''extract_dict'') (\<lambda>c.
     Inr (r(''success'' \<mapsto> (a \<or> b \<or> c))))))"

text \<open>
  Lines 191 to 224 of \<open>convert_model\<close>: the stages of a format. The script reaches them
  with PADDLE or ONNX only; with AUTO neither branch would run.
\<close>

definition run_stages ::
  "env \<Rightarrow> model_dir \<Rightarrow> bool \<Rightarrow> input_format \<Rightarrow> exn + (results \<times> model_dir)" where
  "run_stages env d use_fp16 fmt =
     bind_exn
       (case fmt of
          PADDLE \<Rightarrow>
            bind_exn (convert_paddle_to_onnx env d) (\<lambda>(r1, d1).
            let res1 = initial_results(''paddle_to_onnx'' \<mapsto> r1)
            in bind_exn (item res1 ''paddle_to_onnx'') (\<lambda>exported.
               bind_exn
                 (if exported
                  then bind_exn (convert_onnx_to_mnn env d1 use_fp16 ''model.onnx'' ''model.mnn'')
                         (\<lambda>(r2, d2). Inr (res1(''onnx_to_mnn'' \<mapsto> r2), d2))
                  else Inr (res1, d1))
                 (\<lambda>(res2, d2).
                    bind_exn (extract_character_dict env d2)
                      (\<lambda>(r3, d3). Inr (res2(''extract_dict'' \<mapsto> r3), d3)))))
        | ONNX \<Rightarrow>
            (case glob_onnx d of
               [] \<Rightarrow> Inr (initial_results, d)
             | onnx_file # others \<Rightarrow>
                 bind_exn (convert_onnx_to_mnn env d use_fp16 onnx_file (stem onnx_file @ ''.mnn''))
                   (\<lambda>(r2, d2). Inr (initial_results(''onnx_to_mnn'' \<mapsto> r2), d2)))
        | AUTO \<Rightarrow> Inr (initial_results, d))
       (\<lambda>(res, d'). bind_exn (set_success res) (\<lambda>res'. Inr (res', d')))"

definition convert_model ::
  "env \<Rightarrow> model_dir \<Rightarrow> bool \<Rightarrow> input_format \<Rightarrow> exn + (results \<times> model_dir)" where
  "convert_model env d use_fp16 input_format =
     (if input_format = AUTO then
        bind_exn (detect_input_format d) (\<lambda>detected_format.
          case detected_format of
            None \<Rightarrow> Inr ([''success'' \<mapsto> False], d)
          | Some fmt \<Rightarrow> run_stages env d use_fp16 fmt)
      else run_stages env d use_fp16 input_format)"

subsection \<open>The batch loop of main\<close>

text \<open>
  Lines 320 to 331, with the two accumulators \<open>success_count\<close> and \<open>failed_models\<close>
  as the loop state.
\<close>

fun batch_loop ::
  "env \<Rightarrow> bool \<Rightarrow> input_format \<Rightarrow> model_dir list \<Rightarrow> nat \<times> string list \<Rightarrow> nat \<times> string list" where
  "batch_loop env use_fp16 fmt [] acc = acc"
| "batch_loop env use_fp16 fmt (d # ds) (success_count, failed_models) =
     batch_loop env use_fp16 fmt ds
       (case convert_model env d use_fp16 fmt of
          Inr (res, d') \<Rightarrow>
            if dict_get res ''success'' False then (success_count + 1, failed_models)
            else (success_count, failed_models @ [name d])
        | Inl e \<Rightarrow> (success_count, failed_models @ [name d]))"

text \<open>\<open>for model_dir in sorted(model_dirs)\<close>: directories of one parent, ordered by name.\<close>

definition process_models ::
  "env \<Rightarrow> bool \<Rightarrow> input_format \<Rightarrow> model_dir list \<Rightarrow> nat \<times> string list" where
  "process_models env use_fp16 fmt model_dirs =
     batch_loop env use_fp16 fmt (sort_key name model_dirs) (0, [])"

text \<open>
  What the loop body decides for one directory (lines 322 to 331): it is counted as a
  success when \<open>convert_model\<close> returns a dictionary whose \<open>success\<close> is True, and its
  name goes to \<open>failed_models\<close> otherwise, also when \<open>convert_model\<close> raises.
\<close>

definition model_ok :: "env \<Rightarrow> bool \<Rightarrow> input_format \<Rightarrow> model_dir \<Rightarrow> bool" where
  "model_ok env use_fp16 fmt d =
     (case convert_model env d use_fp16 fmt of
        Inr (res, d') \<Rightarrow> res ''success'' = Some True
      | Inl e \<Rightarrow> False)"

subsection \<open>The full results dictionary, and example inputs\<close>

text \<open>The dictionary with all four keys, \<open>success\<close> being the disjunction of the three stage entries.\<close>

definition mk_results :: "bool \<Rightarrow> bool \<Rightarrow> bool \<Rightarrow> results" where
  "mk_results a b c =
     [''paddle_to_onnx'' \<mapsto> a, ''onnx_to_mnn'' \<mapsto> b, ''extract_dict'' \<mapsto> c,
      ''success'' \<mapsto> (a \<or> b \<or> c)]"

text \<open>Tools that always exit with code 1 and leave the directory as it is.\<close>

definition failing_tools :: env where
  "failing_tools = \<lparr>subprocess_run = (\<lambda>cmd fs. Completed 1 fs), builtin_str = (\<lambda>v. [])\<rparr>"

text \<open>
  Tools that do their work: paddle2onnx leaves \<open>model.onnx\<close>, mnnconvert leaves the
  file named after \<open>--MNNModel\<close>, each with exit code 0.
\<close>

definition converting_tools :: env where
  "converting_tools =
     \<lparr>subprocess_run =
        (\<lambda>cmd fs.
           if take 1 cmd = [''paddle2onnx''] then Completed 0 (write_file ''model.onnx'' Blob fs)
           else if take 1 cmd = [''mnnconvert''] \<and> 6 < length cmd
           then Completed 0 (write_file (cmd ! 6) Blob fs)
           else Completed 1 fs),
      builtin_str = (\<lambda>v. [])\<rparr>"

definition abc_config :: yaml where
  "abc_config =
     YDict [(YStr ''Global'', YNull),
            (YStr ''PostProcess'',
             YDict [(YStr ''name'', YStr ''CTCLabelDecode''),
                    (YStr ''character_dict'', YList [YStr ''a'', YStr ''b'', YStr ''c''])])]"

definition list_config :: yaml where
  "list_config =
     YDict [(YStr ''PostProcess'',
             YList [YDict [(YStr ''character_dict'', YList [YStr ''a'', YNull, YStr ''c''])]])]"

definition empty_dict_config :: yaml where
  "empty_dict_config = YDict [(YStr ''PostProcess'', YDict [(YStr ''character_dict'', YList [])])]"

definition empty_dir :: model_dir where
  "empty_dir = \<lparr>name = ''cls'', files = [], searchable = True, trace = []\<rparr>"

definition both_formats_dir :: model_dir where
  "both_formats_dir =
     \<lparr>name = ''rec'',
      files = [(''foo.onnx'', Blob), (''inference.json'', Blob), (''inference.pdiparams'', Blob),
               (''inference.yml'', Yaml abc_config)],
      searchable = True, trace = []\<rparr>"

definition yml_only_dir :: model_dir where
  "yml_only_dir =
     \<lparr>name = ''keys'', files = [(''inference.yml'', Yaml abc_config)], searchable = True, trace = []\<rparr>"

definition list_shape_dir :: model_dir where
  "list_shape_dir =
     \<lparr>name = ''lst'', files = [(''inference.yml'', Yaml list_config)], searchable = True, trace = []\<rparr>"

definition empty_dict_dir :: model_dir where
  "empty_dict_dir =
     \<lparr>name = ''nochars'', files = [(''inference.yml'', Yaml empty_dict_config)],
      searchable = True, trace = []\<rparr>"

definition onnx_dir :: model_dir where
  "onnx_dir =
     \<lparr>name = ''det'', files = [(''notes.txt'', Blob), (''foo.onnx'', Blob), (''bar.onnx'', Blob)],
      searchable = True, trace = []\<rparr>"

definition converted_dir :: model_dir where
  "converted_dir =
     \<lparr>name = ''done'',
      files = [(''inference.json'', Blob), (''inference.pdiparams'', Blob), (''model.onnx'', Blob),
               (''model.mnn'', Blob), (''inference.yml'', Yaml abc_config),
               (''ppocr_keys.txt'', Text ''old'')],
      searchable = True, trace = []\<rparr>"

definition dangling_dir :: model_dir where
  "dangling_dir =
     \<lparr>name = ''link'', files = [(''foo.onnx'', Dangling), (''bar.onnx'', Blob)],
      searchable = True, trace = []\<rparr>"

definition locked_dir :: model_dir where
  "locked_dir =
     \<lparr>name = ''locked'', files = [(''inference.json'', Blob)], searchable = False, trace = []\<rparr>"

section \<open>Auxiliary facts\<close>

subsection \<open>Exceptions, paths and names\<close>

lemma bind_exn_simps [simp]:
  "bind_exn (Inl e) f = Inl e"
  "bind_exn (Inr x) f = f x"
  by (simp_all add: bind_exn_def)

lemma path_exists_searchable [simp]:
  "searchable d \<Longrightarrow> path_exists d f = Inr (is_present (files d) f)"
  by (simp add: path_exists_def)

lemma not_listed_not_present:
  assumes "f \<notin> fst ` set fs"
  shows "\<not> is_present fs f"
proof -
  from assms have "map_of fs f = None" by (simp add: map_of_eq_None_iff)
  then show ?thesis by (simp add: is_present_def)
qed

lemma yaml_file_present: "map_of fs f = Some (Yaml y) \<Longrightarrow> is_present fs f"
  by (simp add: is_present_def)

lemma stem_onnx: "b \<noteq> [] \<Longrightarrow> stem (b @ ''.onnx'') = b"
  by (simp add: stem_def rfind_def Let_def)

lemma ends_with_append: "ends_with f s \<longleftrightarrow> (\<exists>b. f = b @ s)"
  unfolding ends_with_def
  by (metis append_eq_conv_conj append_take_drop_id diff_add_inverse2 length_append le_add2 length_drop)

lemma glob_onnx_nonempty: "glob_onnx d \<noteq> [] \<longleftrightarrow> (\<exists>f \<in> fst ` set (files d). ends_with f ''.onnx'')"
  by (auto simp: glob_onnx_def filter_empty_conv)

lemma map_of_write_file: "map_of (write_file f c fs) f = Some c"
  by (induction fs) auto

lemmas example_defs =
  failing_tools_def converting_tools_def abc_config_def list_config_def empty_dict_config_def empty_dir_def
  both_formats_dir_def yml_only_dir_def list_shape_dir_def empty_dict_dir_def onnx_dir_def
  converted_dir_def dangling_dir_def locked_dir_def

subsection \<open>The stages\<close>

lemma convert_paddle_to_onnx_Inr:
  assumes "convert_paddle_to_onnx env d = Inr (r, d1)"
  shows "searchable d \<and> searchable d1"
proof -
  have s: "searchable d"
    using assms by (auto simp: convert_paddle_to_onnx_def path_exists_def bind_exn_def split: if_splits)
  with assms show ?thesis
    by (auto simp: convert_paddle_to_onnx_def try_run_def split: if_splits proc.splits)
qed

lemma convert_onnx_to_mnn_searchable:
  assumes "searchable d"
  shows "\<exists>r d'. convert_onnx_to_mnn env d fp i out = Inr (r, d') \<and> searchable d'"
  using assms
  by (auto simp: convert_onnx_to_mnn_def try_run_def split: proc.splits)

lemma extract_try_trace:
  assumes "extract_try env d = (r, d')"
  shows "trace d' = trace d @ [OpenRead ''inference.yml'']
         \<or> trace d' = trace d @ [OpenRead ''inference.yml'', OpenWrite ''ppocr_keys.txt'']"
  using assms
  by (auto simp: extract_try_def Let_def split: sum.splits if_splits)

lemma extract_character_dict_searchable:
  assumes "searchable d"
  shows "extract_character_dict env d =
           Inr (if \<not> is_present (files d) ''inference.yml'' then (False, d)
                else if is_present (files d) ''ppocr_keys.txt'' then (True, d)
                else extract_try env d)"
  using assms by (simp add: extract_character_dict_def)

lemma extract_character_dict_opened:
  assumes "searchable d"
  shows "\<exists>r d' opened.
           extract_character_dict env d = Inr (r, d')
           \<and> trace d' = trace d @ opened
           \<and> set opened \<subseteq> {OpenRead ''inference.yml'', OpenWrite ''ppocr_keys.txt''}
           \<and> (is_present (files d) ''inference.yml'' \<longrightarrow>
                (if is_present (files d) ''ppocr_keys.txt'' then r
                 else OpenRead ''inference.yml'' \<in> set opened))"
proof (cases "is_present (files d) ''inference.yml'' \<and> \<not> is_present (files d) ''ppocr_keys.txt''")
  case False
  then have "extract_character_dict env d = Inr (is_present (files d) ''inference.yml'', d)"
    using assms by (auto simp: extract_character_dict_searchable)
  with False show ?thesis
    by (intro exI [of _ "is_present (files d) ''inference.yml''"] exI [of _ d] exI [of _ "[]"]) auto
next
  case True
  obtain r d' where tried: "extract_try env d = (r, d')" by (cases "extract_try env d")
  with True assms have ex: "extract_character_dict env d = Inr (r, d')"
    by (simp add: extract_character_dict_searchable)
  from extract_try_trace [OF tried] show ?thesis
  proof
    assume "trace d' = trace d @ [OpenRead ''inference.yml'']"
    with ex True show ?thesis
      by (intro exI [of _ r] exI [of _ d'] exI [of _ "[OpenRead ''inference.yml'']"]) simp
  next
    assume "trace d' = trace d @ [OpenRead ''inference.yml'', OpenWrite ''ppocr_keys.txt'']"
    with ex True show ?thesis
      by (intro exI [of _ r] exI [of _ d']
            exI [of _ "[OpenRead ''inference.yml'', OpenWrite ''ppocr_keys.txt'']"]) simp
  qed
qed

lemma first_character_dict_skip:
  assumes "\<forall>item \<in> set before. \<not> has_character_dict item"
  shows "first_character_dict (before @ items) = first_character_dict items"
  using assms
  by (induction before) (auto simp: has_character_dict_def split: yaml.splits option.splits)

lemma find_character_dict_shapes:
  assumes "map_of kvs (YStr ''PostProcess'') = Some pp"
    and "pp = YDict entries
         \<or> (pp = YList (before @ YDict entries # others)
            \<and> (\<forall>item \<in> set before. \<not> has_character_dict item))"
    and "map_of entries (YStr ''character_dict'') = Some v"
  shows "find_character_dict (YDict kvs) = Inr v"
  using assms by (auto simp: find_character_dict_def first_character_dict_skip)

lemma extract_try_written:
  assumes "map_of (files d) ''inference.yml'' = Some (Yaml data)"
    and "find_character_dict data = Inr (YList chars)"
    and "chars \<noteq> []"
  shows "extract_try env d =
           (True, d\<lparr>files := write_file ''ppocr_keys.txt''
                              (Text (concat (map (\<lambda>char. char_str env char @ newline) chars))) (files d),
                    trace := trace d @ [OpenRead ''inference.yml'', OpenWrite ''ppocr_keys.txt'']\<rparr>)"
  using assms by (simp add: extract_try_def safe_load_def Let_def)

lemma extract_try_falsy:
  assumes "map_of (files d) ''inference.yml'' = Some (Yaml data)"
    and "find_character_dict data = Inr v"
    and "\<not> truthy v"
  shows "extract_try env d = (False, d\<lparr>trace := trace d @ [OpenRead ''inference.yml'']\<rparr>)"
  using assms by (simp add: extract_try_def safe_load_def Let_def)

subsection \<open>The results dictionary\<close>

lemma initial_results_upd:
  "initial_results(''paddle_to_onnx'' \<mapsto> a, ''onnx_to_mnn'' \<mapsto> b, ''extract_dict'' \<mapsto> c, ''success'' \<mapsto> s)
     = [''paddle_to_onnx'' \<mapsto> a, ''onnx_to_mnn'' \<mapsto> b, ''extract_dict'' \<mapsto> c, ''success'' \<mapsto> s]"
  by (rule ext) (simp add: initial_results_def)

lemma set_success_initial:
  "set_success (initial_results(''paddle_to_onnx'' \<mapsto> a, ''onnx_to_mnn'' \<mapsto> b, ''extract_dict'' \<mapsto> c))
     = Inr (mk_results a b c)"
  "set_success (initial_results(''paddle_to_onnx'' \<mapsto> a, ''extract_dict'' \<mapsto> c))
     = Inr (mk_results a False c)"
  "set_success (initial_results(''onnx_to_mnn'' \<mapsto> b)) = Inr (mk_results False b False)"
  "set_success initial_results = Inr (mk_results False False False)"
  unfolding set_success_def item_def mk_results_def initial_results_def
  by (simp_all add: fun_eq_iff)

lemma mk_results_lookup [simp]:
  "mk_results a b c ''paddle_to_onnx'' = Some a"
  "mk_results a b c ''onnx_to_mnn'' = Some b"
  "mk_results a b c ''extract_dict'' = Some c"
  "mk_results a b c ''success'' = Some (a \<or> b \<or> c)"
  by (simp_all add: mk_results_def)

lemma dom_mk_results:
  "dom (mk_results a b c) = {''paddle_to_onnx'', ''onnx_to_mnn'', ''extract_dict'', ''success''}"
  by (auto simp: mk_results_def split: if_splits)

lemma run_stages_PADDLE:
  "run_stages env d fp PADDLE =
     bind_exn (convert_paddle_to_onnx env d) (\<lambda>(r1, d1).
     bind_exn (if r1 then convert_onnx_to_mnn env d1 fp ''model.onnx'' ''model.mnn'' else Inr (False, d1)) (\<lambda>(r2, d2).
     bind_exn (extract_character_dict env d2) (\<lambda>(r3, d3). Inr (mk_results r1 r2 r3, d3))))"
proof (cases "convert_paddle_to_onnx env d")
  case (Inl e)
  then show ?thesis by (simp add: run_stages_def)
next
  case (Inr p1)
  obtain r1 d1 where p1: "p1 = (r1, d1)" by (cases p1)
  show ?thesis
  proof (cases r1)
    case False
    show ?thesis
    proof (cases "extract_character_dict env d1")
      case (Inl e)
      with Inr p1 False show ?thesis by (simp add: run_stages_def item_def)
    next
      case (Inr p3)
      obtain r3 d3 where p3: "p3 = (r3, d3)" by (cases p3)
      from \<open>convert_paddle_to_onnx env d = Inr p1\<close> p1 False Inr p3 show ?thesis
        by (simp add: run_stages_def item_def set_success_initial)
    qed
  next
    case True
    show ?thesis
    proof (cases "convert_onnx_to_mnn env d1 fp ''model.onnx'' ''model.mnn''")
      case (Inl e)
      with Inr p1 True show ?thesis by (simp add: run_stages_def item_def)
    next
      case mnn: (Inr p2)
      obtain r2 d2 where p2: "p2 = (r2, d2)" by (cases p2)
      show ?thesis
      proof (cases "extract_character_dict env d2")
        case (Inl e)
        with Inr p1 True mnn p2 show ?thesis by (simp add: run_stages_def item_def)
      next
        case ext: (Inr p3)
        obtain r3 d3 where p3: "p3 = (r3, d3)" by (cases p3)
        from Inr p1 True mnn p2 ext p3 show ?thesis
          by (simp add: run_stages_def item_def set_success_initial)
      qed
    qed
  qed
qed

lemma run_stages_ONNX:
  "run_stages env d fp ONNX =
     (case glob_onnx d of
        [] \<Rightarrow> Inr (mk_results False False False, d)
      | onnx_file # others \<Rightarrow>
          bind_exn (convert_onnx_to_mnn env d fp onnx_file (stem onnx_file @ ''.mnn''))
            (\<lambda>(r2, d2). Inr (mk_results False r2 False, d2)))"
proof (cases "glob_onnx d")
  case Nil
  then show ?thesis
    by (simp add: run_stages_def set_success_initial)
next
  case (Cons f others)
  show ?thesis
  proof (cases "convert_onnx_to_mnn env d fp f (stem f @ ''.mnn'')")
    case (Inl e)
    with Cons show ?thesis by (simp add: run_stages_def)
  next
    case (Inr p2)
    obtain r2 d2 where p2: "p2 = (r2, d2)" by (cases p2)
    from Cons Inr p2 show ?thesis
      by (simp add: run_stages_def set_success_initial)
  qed
qed

lemma run_stages_AUTO:
  "run_stages env d fp AUTO = Inr (mk_results False False False, d)"
  by (simp add: run_stages_def set_success_initial)

lemma run_stages_shape:
  assumes "run_stages env d fp fmt = Inr (res, d')"
  shows "\<exists>a b c. res = mk_results a b c"
proof (cases fmt)
  case PADDLE
  with assms have "run_stages env d fp PADDLE = Inr (res, d')" by simp
  then show ?thesis
    unfolding run_stages_PADDLE
    by (auto simp: bind_exn_def split: sum.splits prod.splits if_splits)
next
  case ONNX
  with assms have "run_stages env d fp ONNX = Inr (res, d')" by simp
  then show ?thesis
    unfolding run_stages_ONNX
    by (auto simp: bind_exn_def split: sum.splits prod.splits list.splits)
next
  case AUTO
  with assms show ?thesis by (auto simp: run_stages_AUTO)
qed

subsection \<open>The batch loop\<close>

lemma batch_loop_summary:
  "batch_loop env fp fmt ds (c, f) =
     (c + length (filter (model_ok env fp fmt) ds),
      f @ map name (filter (\<lambda>x. \<not> model_ok env fp fmt x) ds))"
proof (induction ds arbitrary: c f)
  case Nil
  show ?case by simp
next
  case (Cons d ds)
  show ?case
  proof (cases "convert_model env d fp fmt")
    case (Inl e)
    then have "\<not> model_ok env fp fmt d" by (simp add: model_ok_def)
    with Inl show ?thesis by (simp add: Cons.IH)
  next
    case (Inr p)
    obtain res d' where p: "p = (res, d')" by (cases p)
    have "dict_get res ''success'' False = model_ok env fp fmt d"
      using Inr p by (auto simp: model_ok_def dict_get_def split: option.splits)
    with Inr p show ?thesis by (simp add: Cons.IH)
  qed
qed

section \<open>The claims\<close>

subsection \<open>C1: gating of the stages in PADDLE mode\<close>

text \<open>
  Claim C1. In PADDLE mode (requested, or detected under AUTO), let the Paddle-to-ONNX
  stage return \<open>exported\<close>. If it is False, the ONNX-to-MNN stage is not run: its
  entry stays False and the directory goes to the dictionary stage exactly as the first stage
  left it (\<open>d2 = d1\<close>). Whatever \<open>exported\<close> is, the dictionary stage runs next
  and its result is the \<open>extract_dict\<close> entry; when \<open>inference.yml\<close> exists it
  either finds \<open>ppocr_keys.txt\<close> present and succeeds, or opens \<open>inference.yml\<close>.
  The stage opens files only: it runs no tool.
\<close>

theorem paddle_pipeline_gating:
  assumes mode: "fmt = PADDLE \<or> (fmt = AUTO \<and> detect_input_format d = Inr (Some PADDLE))"
    and stage1: "convert_paddle_to_onnx env d = Inr (exported, d1)"
  shows "\<exists>r2 d2 r3 d3 opened.
           (if exported
            then convert_onnx_to_mnn env d1 use_fp16 ''model.onnx'' ''model.mnn'' = Inr (r2, d2)
            else \<not> r2 \<and> d2 = d1)
           \<and> extract_character_dict env d2 = Inr (r3, d3)
           \<and> convert_model env d use_fp16 fmt = Inr (mk_results exported r2 r3, d3)
           \<and> trace d3 = trace d2 @ opened
           \<and> set opened \<subseteq> {OpenRead ''inference.yml'', OpenWrite ''ppocr_keys.txt''}
           \<and> (is_present (files d2) ''inference.yml'' \<longrightarrow>
                (if is_present (files d2) ''ppocr_keys.txt'' then r3
                 else OpenRead ''inference.yml'' \<in> set opened))"
proof -
  from convert_paddle_to_onnx_Inr [OF stage1] have s1: "searchable d1" by simp
  obtain r2 d2 where
    stage2: "if exported
             then convert_onnx_to_mnn env d1 use_fp16 ''model.onnx'' ''model.mnn'' = Inr (r2, d2)
             else \<not> r2 \<and> d2 = d1"
    and s2: "searchable d2"
  proof (cases exported)
    case True
    from convert_onnx_to_mnn_searchable [OF s1, of env use_fp16 "''model.onnx''" "''model.mnn''"]
    obtain r d' where "convert_onnx_to_mnn env d1 use_fp16 ''model.onnx'' ''model.mnn'' = Inr (r, d')"
      and "searchable d'" by blast
    with True that show ?thesis by simp
  next
    case False
    with s1 that [of False d1] show ?thesis by simp
  qed
  from extract_character_dict_opened [OF s2, of env] obtain r3 d3 opened where
    stage3: "extract_character_dict env d2 = Inr (r3, d3)"
    and tr: "trace d3 = trace d2 @ opened"
    and sub: "set opened \<subseteq> {OpenRead ''inference.yml'', OpenWrite ''ppocr_keys.txt''}"
    and att: "is_present (files d2) ''inference.yml'' \<longrightarrow>
                (if is_present (files d2) ''ppocr_keys.txt'' then r3
                 else OpenRead ''inference.yml'' \<in> set opened)"
    by blast
  from mode have "convert_model env d use_fp16 fmt = run_stages env d use_fp16 PADDLE"
    by (auto simp: convert_model_def)
  with stage1 stage2 stage3
  have run: "convert_model env d use_fp16 fmt = Inr (mk_results exported r2 r3, d3)"
    by (cases exported) (simp_all add: run_stages_PADDLE)
  from stage2 stage3 run tr sub att show ?thesis by blast
qed

text \<open>
  With both Paddle files, a configuration file and a failing exporter: the export fails,
  \<open>onnx_to_mnn\<close> stays False and the configuration file is read all the same.
\<close>

theorem paddle_pipeline_gating_witness:
  "convert_paddle_to_onnx failing_tools both_formats_dir =
     Inr (False, both_formats_dir\<lparr>trace := [Run paddle2onnx_cmd]\<rparr>)
   \<and> (\<exists>r3 d3. convert_model failing_tools both_formats_dir True PADDLE =
                  Inr (mk_results False False r3, d3)
               \<and> OpenRead ''inference.yml'' \<in> set (trace d3))"
proof -
  have stage1: "convert_paddle_to_onnx failing_tools both_formats_dir =
                  Inr (False, both_formats_dir\<lparr>trace := [Run paddle2onnx_cmd]\<rparr>)"
    by (simp add: convert_paddle_to_onnx_def path_exists_def is_present_def try_run_def example_defs)
  from paddle_pipeline_gating [OF _ stage1, of PADDLE True] stage1 show ?thesis
    by (auto simp: both_formats_dir_def is_present_def)
qed

subsection \<open>C2: the lenient success flag\<close>



subsection \<open>C3: a stage whose output exists does nothing\<close>

text \<open>
  Claim C3. For each of the three stages: when its input files exist and its output file
  exists, the stage returns True and the directory is returned as it was, trace included, so
  no tool has been run and no file has been opened.
\<close>

theorem stage_output_exists:
  "(path_exists d ''inference.json'' = Inr True \<and> path_exists d ''inference.pdiparams'' = Inr True
      \<and> path_exists d ''model.onnx'' = Inr True
      \<longrightarrow> convert_paddle_to_onnx env d = Inr (True, d))
   \<and> (path_exists d onnx_filename = Inr True \<and> path_exists d mnn_filename = Inr True
      \<longrightarrow> convert_onnx_to_mnn env d use_fp16 onnx_filename mnn_filename = Inr (True, d))
   \<and> (path_exists d ''inference.yml'' = Inr True \<and> path_exists d ''ppocr_keys.txt'' = Inr True
      \<longrightarrow> extract_character_dict env d = Inr (True, d))"
  by (simp add: convert_paddle_to_onnx_def convert_onnx_to_mnn_def extract_character_dict_def)

text \<open>
  A directory in which every output is present.
\<close>

theorem stage_output_exists_witness:
  "convert_paddle_to_onnx failing_tools converted_dir = Inr (True, converted_dir)
   \<and> convert_onnx_to_mnn failing_tools converted_dir True ''model.onnx'' ''model.mnn'' = Inr (True, converted_dir)
   \<and> extract_character_dict failing_tools converted_dir = Inr (True, converted_dir)"
  using stage_output_exists
          [of converted_dir failing_tools "''model.onnx''" "''model.mnn''" True]
  by (simp add: path_exists_def is_present_def converted_dir_def)

subsection \<open>C4: an undetectable format\<close>

text \<open>
  Claim C4. When the format is AUTO and detection returns None, \<open>convert_model\<close>
  returns at once: \<open>success\<close> is False and the directory is unchanged, trace included,
  so no stage has done anything.
\<close>

theorem convert_model_undetectable:
  assumes "detect_input_format d = Inr None"
  shows "convert_model env d use_fp16 AUTO = Inr ([''success'' \<mapsto> False], d)"
  using assms by (simp add: convert_model_def)

text \<open>
  The empty directory.
\<close>

theorem convert_model_undetectable_witness:
  "detect_input_format empty_dir = Inr None
   \<and> convert_model failing_tools empty_dir True AUTO = Inr ([''success'' \<mapsto> False], empty_dir)"
proof -
  have none: "detect_input_format empty_dir = Inr None"
    by (simp add: detect_input_format_def path_exists_def is_present_def glob_onnx_def empty_dir_def)
  from convert_model_undetectable [OF none, of failing_tools True] none show ?thesis by simp
qed

subsection \<open>C5: detection precedence\<close>

text \<open>
  Claim C5. In a directory whose entries can be examined, detection returns PADDLE when
  both \<open>inference.json\<close> and \<open>inference.pdiparams\<close> are present, whether or not
  there is an \<open>*.onnx\<close> file; ONNX when they are not both present and some
  \<open>*.onnx\<close> file is; and None otherwise.
\<close>

theorem detect_input_format_precedence:
  assumes "searchable d"
  shows "detect_input_format d =
           Inr (if is_present (files d) ''inference.json'' \<and> is_present (files d) ''inference.pdiparams''
                then Some PADDLE
                else if \<exists>f \<in> fst ` set (files d). ends_with f ''.onnx'' then Some ONNX
                else None)"
  using assms by (simp add: detect_input_format_def glob_onnx_nonempty del: set_map)

text \<open>
  A directory with both Paddle files and \<open>foo.onnx\<close> is detected as PADDLE.
\<close>

theorem detect_input_format_precedence_witness:
  "searchable both_formats_dir \<and> detect_input_format both_formats_dir = Inr (Some PADDLE)"
  using detect_input_format_precedence [of both_formats_dir]
  by (simp add: both_formats_dir_def is_present_def)

subsection \<open>C6: isolation of failures in the batch loop\<close>

text \<open>
  Claim C6. Let \<open>convert_model\<close> raise for a directory of the batch, and split the sorted
  list around it. The loop returns its summary all the same, and the summary is: one count
  for every directory, earlier or later, whose \<open>convert_model\<close> returns with
  \<open>success\<close> True; and as failed names, those of the other earlier directories, then
  the name of the raising directory, then those of the other later directories.
\<close>

theorem batch_isolation:
  assumes split: "sort_key name model_dirs = earlier @ d # later"
    and raised: "convert_model env d use_fp16 fmt = Inl e"
  shows "process_models env use_fp16 fmt model_dirs =
           (length (filter (model_ok env use_fp16 fmt) earlier)
              + length (filter (model_ok env use_fp16 fmt) later),
            map name (filter (\<lambda>x. \<not> model_ok env use_fp16 fmt x) earlier)
              @ name d # map name (filter (\<lambda>x. \<not> model_ok env use_fp16 fmt x) later))"
proof -
  from raised have "\<not> model_ok env use_fp16 fmt d" by (simp add: model_ok_def)
  with split show ?thesis
    by (simp add: process_models_def batch_loop_summary)
qed

text \<open>
  Four directories with working tools under AUTO. In sorted order: \<open>cls\<close> is empty and
  fails, \<open>det\<close> is converted from ONNX, \<open>locked\<close> cannot be searched and raises
  PermissionError, \<open>rec\<close> is converted from Paddle after it. Two successes are
  counted, one before and one after the directory that raises.
\<close>

theorem batch_isolation_witness:
  "sort_key name [both_formats_dir, locked_dir, onnx_dir, empty_dir] =
     [empty_dir, onnx_dir] @ locked_dir # [both_formats_dir]
   \<and> convert_model converting_tools locked_dir True AUTO = Inl PermissionError
   \<and> process_models converting_tools True AUTO [both_formats_dir, locked_dir, onnx_dir, empty_dir] =
       (2, [''cls'', ''locked''])"
proof -
  have split: "sort_key name [both_formats_dir, locked_dir, onnx_dir, empty_dir] =
                 [empty_dir, onnx_dir] @ locked_dir # [both_formats_dir]"
    by (simp add: both_formats_dir_def locked_dir_def onnx_dir_def empty_dir_def)
  have raised: "convert_model converting_tools locked_dir True AUTO = Inl PermissionError"
    by (simp add: convert_model_def detect_input_format_def path_exists_def locked_dir_def)
  have cls: "\<not> model_ok converting_tools True AUTO empty_dir"
    by (simp add: model_ok_def convert_model_def detect_input_format_def path_exists_def
          is_present_def glob_onnx_def empty_dir_def)
  have det_format: "detect_input_format onnx_dir = Inr (Some ONNX)"
    by (simp add: detect_input_format_def path_exists_def is_present_def glob_onnx_def
          ends_with_def onnx_dir_def)
  have det: "model_ok converting_tools True AUTO onnx_dir"
    by (simp add: model_ok_def convert_model_def det_format run_stages_ONNX)
       (simp add: glob_onnx_def ends_with_def convert_onnx_to_mnn_def path_exists_def
          is_present_def try_run_def mnnconvert_cmd_def stem_def rfind_def
          converting_tools_def onnx_dir_def)
  have rec_format: "detect_input_format both_formats_dir = Inr (Some PADDLE)"
    by (simp add: detect_input_format_def path_exists_def is_present_def both_formats_dir_def)
  have rec: "model_ok converting_tools True AUTO both_formats_dir"
    by (simp add: model_ok_def convert_model_def rec_format run_stages_PADDLE)
       (simp add: convert_paddle_to_onnx_def convert_onnx_to_mnn_def extract_character_dict_def
          extract_try_def safe_load_def find_character_dict_def path_exists_def is_present_def
          try_run_def paddle2onnx_cmd_def mnnconvert_cmd_def converting_tools_def abc_config_def
          both_formats_dir_def)
  from batch_isolation [OF split raised] cls det rec split raised show ?thesis
    by (simp add: empty_dir_def locked_dir_def)
qed

subsection \<open>C7: file names in direct-ONNX mode\<close>

text \<open>
  Claim C7. In ONNX mode (requested, or detected under AUTO), in a directory whose entries
  can be examined and whose glob is not empty, the ONNX-to-MNN stage works on the first
  entry of the glob and on the output name \<open>stem + ".mnn"\<close>; for an entry \<open>b.onnx\<close>
  with \<open>b\<close> not empty that is \<open>b.mnn\<close>. If the entry is one that \<open>exists()\<close>
  rejects, the stage fails and nothing is run. If the output is present, the stage succeeds
  and nothing is run. Otherwise mnnconvert is called once, with \<open>--modelFile\<close> the
  entry and \<open>--MNNModel\<close> the output name; the stage succeeds exactly when the call
  completes with exit code 0, and the directory is as the tool left it.
\<close>

theorem direct_onnx_naming:
  assumes mode: "fmt = ONNX \<or> (fmt = AUTO \<and> detect_input_format d = Inr (Some ONNX))"
    and ok: "searchable d"
    and found: "glob_onnx d = onnx_file # others"
    and cmd: "cmd = [''mnnconvert'', ''-f'', ''ONNX'', ''--modelFile'', onnx_file,
                     ''--MNNModel'', stem onnx_file @ ''.mnn'', ''--bizCode'', ''mnn'']
                    @ (if use_fp16 then [''--fp16''] else [])"
  shows "\<exists>r2 d2.
           convert_model env d use_fp16 fmt = Inr (mk_results False r2 False, d2)
           \<and> (\<forall>b. b \<noteq> [] \<and> onnx_file = b @ ''.onnx'' \<longrightarrow> stem onnx_file @ ''.mnn'' = b @ ''.mnn'')
           \<and> (if \<not> is_present (files d) onnx_file then \<not> r2 \<and> d2 = d
              else if is_present (files d) (stem onnx_file @ ''.mnn'') then r2 \<and> d2 = d
              else (case subprocess_run env cmd (files d) of
                      Raised fs \<Rightarrow> \<not> r2 \<and> d2 = d\<lparr>files := fs, trace := trace d @ [Run cmd]\<rparr>
                    | Completed returncode fs \<Rightarrow>
                        r2 = (returncode = 0) \<and> d2 = d\<lparr>files := fs, trace := trace d @ [Run cmd]\<rparr>))"
proof -
  let ?out = "stem onnx_file @ ''.mnn''"
  have cmd': "mnnconvert_cmd use_fp16 onnx_file ?out = cmd"
    by (simp add: mnnconvert_cmd_def cmd)
  have stage: "convert_onnx_to_mnn env d use_fp16 onnx_file ?out =
                 Inr (if \<not> is_present (files d) onnx_file then (False, d)
                      else if is_present (files d) ?out then (True, d)
                      else try_run env cmd d)"
    using ok by (simp add: convert_onnx_to_mnn_def cmd')
  obtain r2 d2 where res: "convert_onnx_to_mnn env d use_fp16 onnx_file ?out = Inr (r2, d2)"
    using stage by (metis surj_pair)
  from mode have "convert_model env d use_fp16 fmt = run_stages env d use_fp16 ONNX"
    by (auto simp: convert_model_def)
  with found res have run: "convert_model env d use_fp16 fmt = Inr (mk_results False r2 False, d2)"
    by (simp add: run_stages_ONNX)
  have naming: "\<forall>b. b \<noteq> [] \<and> onnx_file = b @ ''.onnx'' \<longrightarrow> ?out = b @ ''.mnn''"
    by (auto simp: stem_onnx)
  have eff: "if \<not> is_present (files d) onnx_file then \<not> r2 \<and> d2 = d
             else if is_present (files d) ?out then r2 \<and> d2 = d
             else (case subprocess_run env cmd (files d) of
                     Raised fs \<Rightarrow> \<not> r2 \<and> d2 = d\<lparr>files := fs, trace := trace d @ [Run cmd]\<rparr>
                   | Completed returncode fs \<Rightarrow>
                       r2 = (returncode = 0) \<and> d2 = d\<lparr>files := fs, trace := trace d @ [Run cmd]\<rparr>)"
    using stage res by (auto simp: try_run_def split: proc.splits)
  from run naming eff show ?thesis by blast
qed

text \<open>
  A directory listing \<open>foo.onnx\<close> before \<open>bar.onnx\<close>, with a working converter:
  mnnconvert is called for \<open>foo.onnx\<close> and \<open>foo.mnn\<close>, the stage succeeds, and
  \<open>foo.mnn\<close> is in the directory afterwards.
\<close>

theorem direct_onnx_naming_witness:
  "glob_onnx onnx_dir = [''foo.onnx'', ''bar.onnx'']
   \<and> convert_model converting_tools onnx_dir True ONNX =
       Inr (mk_results False True False,
            onnx_dir\<lparr>files := files onnx_dir @ [(''foo.mnn'', Blob)],
                     trace := [Run [''mnnconvert'', ''-f'', ''ONNX'', ''--modelFile'', ''foo.onnx'',
                                    ''--MNNModel'', ''foo.mnn'', ''--bizCode'', ''mnn'', ''--fp16'']]\<rparr>)"
proof -
  have found: "glob_onnx onnx_dir = ''foo.onnx'' # [''bar.onnx'']"
    by (simp add: glob_onnx_def ends_with_def onnx_dir_def)
  have ok: "searchable onnx_dir" by (simp add: onnx_dir_def)
  have stem: "stem ''foo.onnx'' = ''foo''" by (simp add: stem_def rfind_def)
  from direct_onnx_naming
         [of ONNX onnx_dir "''foo.onnx''" "[''bar.onnx'']" _ True converting_tools, OF _ ok found refl]
       found stem
  show ?thesis
    by (auto simp: is_present_def converting_tools_def onnx_dir_def)
qed

text \<open>
  A directory whose first \<open>*.onnx\<close> entry is a dangling link: the stage takes that entry,
  \<open>exists()\<close> rejects it at line 85, and nothing is run although \<open>bar.onnx\<close> is a file.
\<close>

lemma dangling_first_entry_example:
  "glob_onnx dangling_dir = [''foo.onnx'', ''bar.onnx'']
   \<and> convert_model converting_tools dangling_dir True ONNX =
       Inr (mk_results False False False, dangling_dir)"
  by (simp add: convert_model_def run_stages_ONNX glob_onnx_def ends_with_def
        convert_onnx_to_mnn_def path_exists_def is_present_def dangling_dir_def)

subsection \<open>C8: the two shapes of PostProcess\<close>

text \<open>
  Claim C8, amended. When \<open>ppocr_keys.txt\<close> does not exist yet, and
  \<open>inference.yml\<close> parses to a dict whose \<open>PostProcess\<close> is a dict with
  \<open>character_dict: [a, b, c]\<close>, or a list in which the first item with a
  \<open>character_dict\<close> field is such a dict, the dictionary stage succeeds and writes \<open>ppocr_keys.txt\<close> with three entries, each
  followed by a newline; None is written as the empty string and a str as itself.
\<close>

theorem extract_dictionary_shapes:
  assumes ok: "searchable d"
    and yml: "map_of (files d) ''inference.yml'' = Some (Yaml (YDict kvs))"
    and fresh: "''ppocr_keys.txt'' \<notin> fst ` set (files d)"
    and pp: "map_of kvs (YStr ''PostProcess'') = Some pp"
    and shape: "pp = YDict entries
                \<or> (pp = YList (before @ YDict entries # others)
                   \<and> (\<forall>item \<in> set before. \<not> has_character_dict item))"
    and cd: "map_of entries (YStr ''character_dict'') = Some (YList [a, b, c])"
  shows "\<exists>d'. extract_character_dict env d = Inr (True, d')
           \<and> map_of (files d') ''ppocr_keys.txt'' =
               Some (Text (char_str env a @ newline @ char_str env b @ newline @ char_str env c @ newline))
           \<and> trace d' = trace d @ [OpenRead ''inference.yml'', OpenWrite ''ppocr_keys.txt'']
           \<and> char_str env YNull = [] \<and> (\<forall>s. char_str env (YStr s) = s)"
proof -
  from find_character_dict_shapes [OF pp shape cd]
  have "find_character_dict (YDict kvs) = Inr (YList [a, b, c])" .
  from extract_try_written [OF yml this, of env] yaml_file_present [OF yml] not_listed_not_present [OF fresh] ok
  show ?thesis
    by (simp add: extract_character_dict_searchable map_of_write_file char_str_def del: set_map)
qed

text \<open>
  The list shape, with a None entry in the middle.
\<close>

theorem extract_dictionary_shapes_witness:
  "\<exists>d'. extract_character_dict failing_tools list_shape_dir = Inr (True, d')
        \<and> map_of (files d') ''ppocr_keys.txt'' = Some (Text (''a'' @ newline @ newline @ ''c'' @ newline))"
proof -
  have "\<exists>d'. extract_character_dict failing_tools list_shape_dir = Inr (True, d')
          \<and> map_of (files d') ''ppocr_keys.txt'' =
              Some (Text (char_str failing_tools (YStr ''a'') @ newline @ char_str failing_tools YNull @ newline
                          @ char_str failing_tools (YStr ''c'') @ newline))
          \<and> trace d' = trace list_shape_dir @ [OpenRead ''inference.yml'', OpenWrite ''ppocr_keys.txt'']
          \<and> char_str failing_tools YNull = [] \<and> (\<forall>s. char_str failing_tools (YStr s) = s)"
    by (rule extract_dictionary_shapes
          [of list_shape_dir
              "[(YStr ''PostProcess'', YList [YDict [(YStr ''character_dict'', YList [YStr ''a'', YNull, YStr ''c''])]])]"
              "YList [YDict [(YStr ''character_dict'', YList [YStr ''a'', YNull, YStr ''c''])]]"
              "[(YStr ''character_dict'', YList [YStr ''a'', YNull, YStr ''c''])]" "[]" "[]"])
       (simp_all add: list_shape_dir_def list_config_def)
  then show ?thesis by auto
qed

text \<open>
  The claim as stated fails when \<open>ppocr_keys.txt\<close> is already there: the stage
  returns True at line 124, before it reads the configuration, and the old content stays.
\<close>

theorem extract_existing_output_counterexample:
  "map_of (files converted_dir) ''inference.yml'' = Some (Yaml abc_config)
   \<and> extract_character_dict failing_tools converted_dir = Inr (True, converted_dir)
   \<and> map_of (files converted_dir) ''ppocr_keys.txt'' = Some (Text ''old'')
   \<and> ''old'' \<noteq> ''a'' @ newline @ ''b'' @ newline @ ''c'' @ newline
   \<and> trace converted_dir = []"
  by (simp add: extract_character_dict_def path_exists_def is_present_def converted_dir_def)

subsection \<open>C9: the keys of the returned dictionary\<close>

text \<open>
  Claim C9, amended. The dictionary that \<open>convert_model\<close> returns has the four keys
  \<open>paddle_to_onnx\<close>, \<open>onnx_to_mnn\<close>, \<open>extract_dict\<close> and \<open>success\<close>
  on every path but one: when the format is AUTO and nothing is detected, it has the key
  \<open>success\<close> only.
\<close>

theorem convert_model_keys:
  assumes "convert_model env d use_fp16 fmt = Inr (res, d')"
  shows "dom res =
           (if fmt = AUTO \<and> detect_input_format d = Inr None then {''success''}
            else {''paddle_to_onnx'', ''onnx_to_mnn'', ''extract_dict'', ''success''})"
proof (cases "fmt = AUTO \<and> detect_input_format d = Inr None")
  case True
  with assms have "res = [''success'' \<mapsto> False]"
    by (simp add: convert_model_def)
  with True show ?thesis by simp
next
  case False
  with assms obtain fmt' where "run_stages env d use_fp16 fmt' = Inr (res, d')"
    by (auto simp: convert_model_def bind_exn_def split: if_splits sum.splits option.splits)
  from run_stages_shape [OF this] obtain a b c where "res = mk_results a b c" by blast
  with False show ?thesis by (simp add: dom_mk_results)
qed

text \<open>
  A directory detected as ONNX.
\<close>

theorem convert_model_keys_witness:
  "\<exists>res d'. convert_model failing_tools onnx_dir False AUTO = Inr (res, d')
            \<and> dom res = {''paddle_to_onnx'', ''onnx_to_mnn'', ''extract_dict'', ''success''}"
proof -
  have detect: "detect_input_format onnx_dir = Inr (Some ONNX)"
    by (simp add: detect_input_format_def path_exists_def is_present_def glob_onnx_def ends_with_def onnx_dir_def)
  have "convert_model failing_tools onnx_dir False AUTO = run_stages failing_tools onnx_dir False ONNX"
    by (simp add: convert_model_def detect)
  then have "\<exists>res d'. convert_model failing_tools onnx_dir False AUTO = Inr (res, d')"
    by (simp add: run_stages_ONNX glob_onnx_def ends_with_def
          convert_onnx_to_mnn_def path_exists_def is_present_def try_run_def failing_tools_def onnx_dir_def)
  then obtain res d' where run: "convert_model failing_tools onnx_dir False AUTO = Inr (res, d')"
    by blast
  from convert_model_keys [OF run] detect run show ?thesis by auto
qed

text \<open>
  The claim as stated fails on the empty directory under AUTO: line 187 returns a
  dictionary without the three stage keys.
\<close>

theorem convert_model_keys_counterexample:
  "convert_model failing_tools empty_dir True AUTO = Inr ([''success'' \<mapsto> False], empty_dir)
   \<and> dom [''success'' \<mapsto> False] \<noteq> {''paddle_to_onnx'', ''onnx_to_mnn'', ''extract_dict'', ''success''}"
  by (simp add: convert_model_def detect_input_format_def path_exists_def is_present_def glob_onnx_def empty_dir_def)

subsection \<open>C10: a dictionary field with a falsy value\<close>

text \<open>
  Claim C10. When \<open>inference.yml\<close> exists and parses, \<open>ppocr_keys.txt\<close> does
  not exist, and the \<open>character_dict\<close> field is found (in a dict-shaped PostProcess, or
  in the first item of a list-shaped one that has the field) with a value that Python takes
  as false (an empty list, an empty string, ...), the dictionary stage returns False; it has
  opened \<open>inference.yml\<close> and nothing else, and the files are as before, so no output
  file has been written.
\<close>

theorem extract_falsy_dictionary:
  assumes ok: "searchable d"
    and yml: "map_of (files d) ''inference.yml'' = Some (Yaml (YDict kvs))"
    and fresh: "''ppocr_keys.txt'' \<notin> fst ` set (files d)"
    and pp: "map_of kvs (YStr ''PostProcess'') = Some pp"
    and shape: "pp = YDict entries
                \<or> (pp = YList (before @ YDict entries # others)
                   \<and> (\<forall>item \<in> set before. \<not> has_character_dict item))"
    and cd: "map_of entries (YStr ''character_dict'') = Some v"
    and falsy: "\<not> truthy v"
  shows "extract_character_dict env d = Inr (False, d\<lparr>trace := trace d @ [OpenRead ''inference.yml'']\<rparr>)"
proof -
  from find_character_dict_shapes [OF pp shape cd]
  have "find_character_dict (YDict kvs) = Inr v" .
  from extract_try_falsy [OF yml this falsy, of env] yaml_file_present [OF yml] not_listed_not_present [OF fresh] ok
  show ?thesis
    by (simp add: extract_character_dict_searchable)
qed

text \<open>
  \<open>character_dict: []\<close>.
\<close>

theorem extract_falsy_dictionary_witness:
  "extract_character_dict failing_tools empty_dict_dir =
     Inr (False, empty_dict_dir\<lparr>trace := [OpenRead ''inference.yml'']\<rparr>)
   \<and> ''ppocr_keys.txt'' \<notin> fst ` set (files empty_dict_dir)"
  using extract_falsy_dictionary
          [of empty_dict_dir "[(YStr ''PostProcess'', YDict [(YStr ''character_dict'', YList [])])]"
              "YDict [(YStr ''character_dict'', YList [])]"
              "[(YStr ''character_dict'', YList [])]" "[]" "[]" "YList []" failing_tools]
  by (simp add: empty_dict_dir_def empty_dict_config_def)

end
